theory Spec2Isabelle
  imports Main "HOL-Library.Word"
begin

section \<open>Values of the host language\<close>

text \<open>
  The wallet class of \<^verbatim>\<open>src/wallets/WalletContractV4.ts\<close> is embedded function by
  function. A \<^verbatim>\<open>number\<close> is modelled as an \<^typ>\<open>int\<close> (the wallet only adds two
  integers, which is exact on safe integers), a \<^verbatim>\<open>bigint\<close> as an \<^typ>\<open>int\<close>, a
  \<^verbatim>\<open>Buffer\<close> as a list of bytes. \<^verbatim>\<open>Maybe<T>\<close> is \<^verbatim>\<open>T | null | undefined\<close>.
\<close>

type_synonym Buffer = "8 word list"

type_synonym SendMode = int

datatype 'a Maybe = Undefined | Null | Just 'a

text \<open>\<^verbatim>\<open>a ?? b\<close>: the right operand replaces \<^verbatim>\<open>null\<close> and \<^verbatim>\<open>undefined\<close> only.\<close>

fun nullish :: "'a Maybe \<Rightarrow> 'a \<Rightarrow> 'a" where
  "nullish Undefined b = b"
| "nullish Null b = b"
| "nullish (Just a) b = a"

text \<open>\<^verbatim>\<open>xs[0]\<close>: reading past the end of an array gives \<^verbatim>\<open>undefined\<close>, it does not throw.\<close>

fun first_element :: "'a list \<Rightarrow> 'a Maybe" where
  "first_element [] = Undefined"
| "first_element (x # xs) = Just x"

text \<open>
  A thrown value is \<open>Inl\<close>, a returned one \<open>Inr\<close>; a statement after a throwing one
  does not run.
\<close>

fun and_then :: "'x + 'v \<Rightarrow> ('v \<Rightarrow> 'x + 'w) \<Rightarrow> 'x + 'w" where
  "and_then (Inl e) f = Inl e"
| "and_then (Inr v) f = f v"

section \<open>The interface of the cell library\<close>

text \<open>
  \<^verbatim>\<open>@ton/core\<close> is not part of the repository. Its types are type parameters
  (\<open>'b\<close> a cell builder, \<open>'c\<close> a cell, \<open>'a\<close> an address, \<open>'m\<close> a relaxed message,
  \<open>'x\<close> a thrown value) and its functions are the fields of a record that every
  wallet function takes as its first argument. The functions on cells are pure
  functions of their arguments that may throw.
\<close>

record 'c StateInit =
  code :: "'c Maybe"
  data :: "'c Maybe"

datatype 'c TupleItem =
    TupleItemNull
  | TupleItemInt int
  | TupleItemNaN
  | TupleItemCell 'c
  | TupleItemSlice 'c
  | TupleItemBuilder 'c
  | TupleItemTuple "'c TupleItem list"

text \<open>The argument of \<^verbatim>\<open>internal\<close>, and a \<^verbatim>\<open>SenderArguments\<close> without its send mode.\<close>

record ('a, 'c) MessageArgs =
  msg_to :: 'a
  msg_value :: int
  msg_init :: "'c StateInit Maybe"
  msg_body :: "'c Maybe"
  msg_bounce :: "bool Maybe"

record ('b, 'c, 'a, 'm, 'x) TonCore =
  Buffer_from :: "string \<Rightarrow> string \<Rightarrow> Buffer"
  Cell_fromBoc :: "Buffer \<Rightarrow> 'x + 'c list"
  beginCell :: 'b
  storeUint :: "int \<Rightarrow> nat \<Rightarrow> 'b \<Rightarrow> 'x + 'b"
  storeBuffer :: "Buffer \<Rightarrow> 'b \<Rightarrow> 'x + 'b"
  storeBit :: "int \<Rightarrow> 'b \<Rightarrow> 'x + 'b"
  endCell :: "'b \<Rightarrow> 'x + 'c"
  contractAddress :: "int \<Rightarrow> 'c StateInit \<Rightarrow> 'x + 'a"
  internal :: "('a, 'c) MessageArgs \<Rightarrow> 'x + 'm"
  readNumber :: "'c TupleItem list \<Rightarrow> 'x + int"
  PAY_GAS_SEPARATELY :: SendMode

section \<open>The wallet object and its constructor\<close>

record ('c, 'a) WalletContractV4 =
  workchain :: int
  publicKey :: Buffer
  address :: 'a
  walletId :: int
  init :: "'c StateInit"

text \<open>The base64 text of the wallet's code, as the constructor spells it.\<close>

definition code_base64 :: string where
  "code_base64 = ''te6ccgECFAEAAtQAART/APSkE/S88sgLAQIBIAIDAgFIBAUE+PKDCNcYINMf0x/THwL4I7vyZO1E0NMf0x/T//QE0VFDuvKhUVG68qIF+QFUEGT5EPKj+AAkpMjLH1JAyx9SMMv/UhD0AMntVPgPAdMHIcAAn2xRkyDXSpbTB9QC+wDoMOAhwAHjACHAAuMAAcADkTDjDQOkyMsfEssfy/8QERITAubQAdDTAyFxsJJfBOAi10nBIJJfBOAC0x8hghBwbHVnvSKCEGRzdHK9sJJfBeAD+kAwIPpEAcjKB8v/ydDtRNCBAUDXIfQEMFyBAQj0Cm+hMbOSXwfgBdM/yCWCEHBsdWe6kjgw4w0DghBkc3RyupJfBuMNBgcCASAICQB4AfoA9AQw+CdvIjBQCqEhvvLgUIIQcGx1Z4MesXCAGFAEywUmzxZY+gIZ9ADLaRfLH1Jgyz8gyYBA+wAGAIpQBIEBCPRZMO1E0IEBQNcgyAHPFvQAye1UAXKwjiOCEGRzdHKDHrFwgBhQBcsFUAPPFiP6AhPLassfyz/JgED7AJJfA+ICASAKCwBZvSQrb2omhAgKBrkPoCGEcNQICEekk30pkQzmkD6f+YN4EoAbeBAUiYcVnzGEAgFYDA0AEbjJftRNDXCx+AA9sp37UTQgQFA1yH0BDACyMoHy//J0AGBAQj0Cm+hMYAIBIA4PABmtznaiaEAga5Drhf/AABmvHfaiaEAQa5DrhY/AAG7SB/oA1NQi+QAFyMoHFcv/ydB3dIAYyMsFywIizxZQBfoCFMtrEszMyXP7AMhAFIEBCPRR8qcCAHCBAQjXGPoA0z/IVCBHgQEI9FHyp4IQbm90ZXB0gBjIywXLAlAGzxZQBPoCFMtqEssfyz/Jc/sAAgBsgQEI1xj6ANM/MFIkgQEI9Fnyp4IQZHN0cnB0gBjIywXLAlAFzxZQA/oCE8tqyx8Syz/Jc/sAAAr0AMntVA==''"

text \<open>
  The constructor. The wallet id is resolved first; the code cell is the first root of
  the decoded bag of cells; the data cell holds a zero seqno, the wallet id, the public
  key and an empty plugin dictionary; the address is derived from the workchain and
  the two cells. A throwing library call ends the construction with that value.
\<close>

definition new_WalletContractV4 ::
  "('b, 'c, 'a, 'm, 'x, 'z) TonCore_scheme \<Rightarrow> int \<Rightarrow> Buffer \<Rightarrow> int Maybe \<Rightarrow>
     'x + ('c, 'a) WalletContractV4" where
  "new_WalletContractV4 L workchain0 publicKey0 walletId0 =
     (let this_workchain = workchain0;
          this_publicKey = publicKey0;
          this_walletId =
            (case walletId0 of
               Just w \<Rightarrow> w
             | Null \<Rightarrow> 698983191 + workchain0
             | Undefined \<Rightarrow> 698983191 + workchain0)
      in and_then (Cell_fromBoc L (Buffer_from L code_base64 ''base64'')) (\<lambda>roots.
         let code0 = first_element roots in
         and_then (storeUint L 0 32 (beginCell L)) (\<lambda>b1.
         and_then (storeUint L this_walletId 32 b1) (\<lambda>b2.
         and_then (storeBuffer L this_publicKey b2) (\<lambda>b3.
         and_then (storeBit L 0 b3) (\<lambda>b4.
         and_then (endCell L b4) (\<lambda>data0.
         let this_init = \<lparr>code = code0, data = Just data0\<rparr> in
         and_then (contractAddress L workchain0 \<lparr>code = code0, data = Just data0\<rparr>) (\<lambda>this_address.
         Inr \<lparr>workchain = this_workchain, publicKey = this_publicKey,
              address = this_address, walletId = this_walletId,
              init = this_init\<rparr>))))))))"

record CreateArgs =
  args_workchain :: int
  args_publicKey :: Buffer
  args_walletId :: "int Maybe"

definition create ::
  "('b, 'c, 'a, 'm, 'x, 'z) TonCore_scheme \<Rightarrow> 'y CreateArgs_scheme \<Rightarrow>
     'x + ('c, 'a) WalletContractV4" where
  "create L args =
     new_WalletContractV4 L (args_workchain args) (args_publicKey args) (args_walletId args)"

section \<open>The contract provider and the transfer builder\<close>

text \<open>
  What \<^verbatim>\<open>getState\<close> answers: the balance and the account state, whose tag is one of
  \<^verbatim>\<open>"uninit"\<close>, \<^verbatim>\<open>"active"\<close> and \<^verbatim>\<open>"frozen"\<close>.
\<close>

datatype AccountState =
    uninit
  | active "Buffer Maybe" "Buffer Maybe"
  | frozen Buffer

fun state_type :: "AccountState \<Rightarrow> string" where
  "state_type uninit = ''uninit''"
| "state_type (active c d) = ''active''"
| "state_type (frozen h) = ''frozen''"

record ContractState =
  balance :: int
  state :: AccountState

record 'c ContractGetMethodResult =
  stack :: "'c TupleItem list"

text \<open>
  The provider is supplied by the caller. Each of its three methods is a round trip to
  the ledger: it reads and may change the state \<open>'e\<close> of the world outside the wallet,
  and it answers or throws.
\<close>

record ('c, 'x, 'e) ContractProvider =
  getState :: "'e \<Rightarrow> ('x + ContractState) \<times> 'e"
  get :: "string \<Rightarrow> 'c TupleItem list \<Rightarrow> 'e \<Rightarrow> ('x + 'c ContractGetMethodResult) \<times> 'e"
  external :: "'c \<Rightarrow> 'e \<Rightarrow> ('x + unit) \<times> 'e"

text \<open>The arguments of a transfer; \<open>'k\<close> stands for the fields that authorise it.\<close>

record 'm WalletV4BasicSendArgs =
  seqno :: int
  messages :: "'m list"
  sendMode :: "SendMode Maybe"
  timeout :: "int Maybe"

record 'm Wallet4SendArgsSigned = "'m WalletV4BasicSendArgs" +
  secretKey :: Buffer

text \<open>What the wallet hands to the transfer builder: the arguments and a wallet id.\<close>

record 'm WalletV4TransferArgs = "'m WalletV4BasicSendArgs" +
  transfer_walletId :: int

text \<open>
  \<^verbatim>\<open>createWalletTransferV4\<close> lives in \<^verbatim>\<open>./signing/createWalletTransfer\<close>, outside the
  file embedded here: it is one more import, which signs with what it is given and may
  read the world outside (a clock, a signer).
\<close>

record ('b, 'c, 'a, 'm, 'x, 'e, 'k) Imports = "('b, 'c, 'a, 'm, 'x) TonCore" +
  createWalletTransferV4 :: "('m, 'k) WalletV4TransferArgs_scheme \<Rightarrow> 'e \<Rightarrow> ('x + 'c) \<times> 'e"

section \<open>Running the asynchronous methods\<close>

text \<open>
  A run of a method starts in a world and ends in one: the wallet object \<open>this\<close>, the
  state outside it, and the provider calls made so far, oldest first. The list of calls
  is there to count and order the round trips; no method reads it. The provider and
  the transfer builder are handed cells and arguments, never the wallet object, so
  they act on the state outside only.
\<close>

datatype 'c ProviderCall =
    Call_getState
  | Call_get string "'c TupleItem list"
  | Call_external 'c

record ('c, 'a, 'e) World =
  this :: "('c, 'a) WalletContractV4"
  chain :: 'e
  calls :: "'c ProviderCall list"

text \<open>
  \<^verbatim>\<open>let v = m; f(v)\<close> and \<^verbatim>\<open>let v = await m; f(v)\<close>: a thrown value, or a rejected
  promise rethrown where it is awaited, ends the method; no method catches.
\<close>

definition then_run ::
  "('w \<Rightarrow> ('x + 'v) \<times> 'w) \<Rightarrow> ('v \<Rightarrow> 'w \<Rightarrow> ('x + 'u) \<times> 'w) \<Rightarrow> 'w \<Rightarrow> ('x + 'u) \<times> 'w" where
  "then_run m f w = (case m w of (Inl e, w') \<Rightarrow> (Inl e, w') | (Inr v, w') \<Rightarrow> f v w')"

definition return :: "'v \<Rightarrow> 'w \<Rightarrow> ('x + 'v) \<times> 'w" where
  "return v w = (Inr v, w)"

text \<open>A library call that touches nothing: its answer or its thrown value.\<close>

definition sync :: "'x + 'v \<Rightarrow> 'w \<Rightarrow> ('x + 'v) \<times> 'w" where
  "sync r w = (r, w)"

definition provider_getState ::
  "('c, 'x, 'e) ContractProvider \<Rightarrow> ('c, 'a, 'e) World \<Rightarrow> ('x + ContractState) \<times> ('c, 'a, 'e) World" where
  "provider_getState P w =
     (case getState P (chain w) of
        (r, e') \<Rightarrow> (r, w\<lparr>chain := e', calls := calls w @ [Call_getState]\<rparr>))"

definition provider_get ::
  "('c, 'x, 'e) ContractProvider \<Rightarrow> string \<Rightarrow> 'c TupleItem list \<Rightarrow> ('c, 'a, 'e) World \<Rightarrow>
     ('x + 'c ContractGetMethodResult) \<times> ('c, 'a, 'e) World" where
  "provider_get P name args w =
     (case get P name args (chain w) of
        (r, e') \<Rightarrow> (r, w\<lparr>chain := e', calls := calls w @ [Call_get name args]\<rparr>))"

definition provider_external ::
  "('c, 'x, 'e) ContractProvider \<Rightarrow> 'c \<Rightarrow> ('c, 'a, 'e) World \<Rightarrow> ('x + unit) \<times> ('c, 'a, 'e) World" where
  "provider_external P message w =
     (case external P message (chain w) of
        (r, e') \<Rightarrow> (r, w\<lparr>chain := e', calls := calls w @ [Call_external message]\<rparr>))"

section \<open>The methods of the wallet\<close>

definition getBalance ::
  "('c, 'x, 'e) ContractProvider \<Rightarrow> ('c, 'a, 'e) World \<Rightarrow> ('x + int) \<times> ('c, 'a, 'e) World" where
  "getBalance P =
     then_run (provider_getState P) (\<lambda>st.
     return (balance st))"

definition getSeqno ::
  "('b, 'c, 'a, 'm, 'x, 'z) TonCore_scheme \<Rightarrow> ('c, 'x, 'e) ContractProvider \<Rightarrow>
     ('c, 'a, 'e) World \<Rightarrow> ('x + int) \<times> ('c, 'a, 'e) World" where
  "getSeqno L P =
     then_run (provider_getState P) (\<lambda>st.
     if state_type (state st) = ''active'' then
       then_run (provider_get P ''seqno'' []) (\<lambda>res.
       sync (readNumber L (stack res)))
     else return 0)"

definition send ::
  "('c, 'x, 'e) ContractProvider \<Rightarrow> 'c \<Rightarrow> ('c, 'a, 'e) World \<Rightarrow> ('x + unit) \<times> ('c, 'a, 'e) World" where
  "send P message =
     then_run (provider_external P message) (\<lambda>u.
     return ())"

text \<open>
  The object literal \<^verbatim>\<open>{...args, sendMode: args.sendMode ?? SendMode.PAY_GAS_SEPARATELY,
  walletId: this.walletId}\<close>: every field of \<open>args\<close>, then the two fields written after
  the spread.
\<close>

definition transfer_args ::
  "('b, 'c, 'a, 'm, 'x, 'z) TonCore_scheme \<Rightarrow> ('c, 'a) WalletContractV4 \<Rightarrow>
     ('m, 'k) WalletV4BasicSendArgs_scheme \<Rightarrow> ('m, 'k) WalletV4TransferArgs_scheme" where
  "transfer_args L wallet args =
     \<lparr>seqno = seqno args, messages = messages args,
      sendMode = Just (nullish (sendMode args) (PAY_GAS_SEPARATELY L)),
      timeout = timeout args,
      transfer_walletId = walletId wallet,
      \<dots> = WalletV4BasicSendArgs.more args\<rparr>"

definition createTransfer ::
  "('b, 'c, 'a, 'm, 'x, 'e, 'k, 'z) Imports_scheme \<Rightarrow> ('m, 'k) WalletV4BasicSendArgs_scheme \<Rightarrow>
     ('c, 'a, 'e) World \<Rightarrow> ('x + 'c) \<times> ('c, 'a, 'e) World" where
  "createTransfer L args w =
     (case createWalletTransferV4 L (transfer_args L (this w) args) (chain w) of
        (r, e') \<Rightarrow> (r, w\<lparr>chain := e'\<rparr>))"

definition sendTransfer ::
  "('b, 'c, 'a, 'm, 'x, 'e, 'y Wallet4SendArgsSigned_ext, 'z) Imports_scheme \<Rightarrow>
     ('c, 'x, 'e) ContractProvider \<Rightarrow> ('m, 'y) Wallet4SendArgsSigned_scheme \<Rightarrow>
     ('c, 'a, 'e) World \<Rightarrow> ('x + unit) \<times> ('c, 'a, 'e) World" where
  "sendTransfer L P args =
     then_run (createTransfer L args) (\<lambda>transfer.
     then_run (send P transfer) (\<lambda>u.
     return ()))"

text \<open>\<^verbatim>\<open>xs.map(f)\<close> with an \<open>f\<close> that may throw: the first throw ends the map.\<close>

fun map_throwing :: "('u \<Rightarrow> 'x + 'v) \<Rightarrow> 'u list \<Rightarrow> 'x + 'v list" where
  "map_throwing f [] = Inr []"
| "map_throwing f (u # us) =
     and_then (f u) (\<lambda>v. and_then (map_throwing f us) (\<lambda>vs. Inr (v # vs)))"

record ('a, 'c) SenderArguments = "('a, 'c) MessageArgs" +
  msg_sendMode :: "SendMode Maybe"

record ('a, 'c) SendsArguments =
  sends_sendMode :: "SendMode Maybe"
  sends_msgs :: "('a, 'c) MessageArgs list"

text \<open>The two functions of the object that \<^verbatim>\<open>sender\<close> returns, and the object.\<close>

definition sender_send ::
  "('b, 'c, 'a, 'm, 'x, 'e, unit Wallet4SendArgsSigned_ext, 'z) Imports_scheme \<Rightarrow>
     ('c, 'x, 'e) ContractProvider \<Rightarrow> Buffer \<Rightarrow> ('a, 'c, 'y) SenderArguments_scheme \<Rightarrow>
     ('c, 'a, 'e) World \<Rightarrow> ('x + unit) \<times> ('c, 'a, 'e) World" where
  "sender_send L P secretKey0 args =
     then_run (getSeqno L P) (\<lambda>seqno0.
     then_run (sync (internal L \<lparr>msg_to = msg_to args, msg_value = msg_value args,
                              msg_init = msg_init args, msg_body = msg_body args,
                              msg_bounce = msg_bounce args\<rparr>)) (\<lambda>message.
     then_run (createTransfer L \<lparr>seqno = seqno0, messages = [message],
                              sendMode = msg_sendMode args, timeout = Undefined,
                              secretKey = secretKey0\<rparr>) (\<lambda>transfer.
     then_run (send P transfer) (\<lambda>u.
     return ()))))"

definition sender_sends ::
  "('b, 'c, 'a, 'm, 'x, 'e, unit Wallet4SendArgsSigned_ext, 'z) Imports_scheme \<Rightarrow>
     ('c, 'x, 'e) ContractProvider \<Rightarrow> Buffer \<Rightarrow> ('a, 'c, 'y) SendsArguments_scheme \<Rightarrow>
     ('c, 'a, 'e) World \<Rightarrow> ('x + unit) \<times> ('c, 'a, 'e) World" where
  "sender_sends L P secretKey0 args =
     then_run (getSeqno L P) (\<lambda>seqno0.
     then_run (sync (map_throwing
              (\<lambda>msg. internal L \<lparr>msg_to = msg_to msg, msg_value = msg_value msg,
                                   msg_init = msg_init msg, msg_body = msg_body msg,
                                   msg_bounce = msg_bounce msg\<rparr>)
              (sends_msgs args))) (\<lambda>messages0.
     then_run (createTransfer L \<lparr>seqno = seqno0, messages = messages0,
                              sendMode = sends_sendMode args, timeout = Undefined,
                              secretKey = secretKey0\<rparr>) (\<lambda>transfer.
     then_run (send P transfer) (\<lambda>u.
     return ()))))"

record ('a, 'c, 'x, 'e) Sender =
  Sender_send ::
    "('a, 'c) SenderArguments \<Rightarrow> ('c, 'a, 'e) World \<Rightarrow> ('x + unit) \<times> ('c, 'a, 'e) World"
  Sender_sends ::
    "('a, 'c) SendsArguments \<Rightarrow> ('c, 'a, 'e) World \<Rightarrow> ('x + unit) \<times> ('c, 'a, 'e) World"

definition sender ::
  "('b, 'c, 'a, 'm, 'x, 'e, unit Wallet4SendArgsSigned_ext, 'z) Imports_scheme \<Rightarrow>
     ('c, 'x, 'e) ContractProvider \<Rightarrow> Buffer \<Rightarrow> ('a, 'c, 'x, 'e) Sender" where
  "sender L P secretKey0 =
     \<lparr>Sender_send = (\<lambda>args. sender_send L P secretKey0 args),
      Sender_sends = (\<lambda>args. sender_sends L P secretKey0 args)\<rparr>"

section \<open>A library, a builder and a provider to run the wallet on\<close>

text \<open>
  Small stand-ins for the imports, on which the wallet's functions compute: a cell and
  a builder are lists of the integers stored, an address is the workchain followed by
  the data cell, a thrown value is its message.
\<close>

record Ledger =
  outage :: "string list"
  account_balance :: int
  account_state :: AccountState
  account_seqno :: int
  inbox :: "int list list"

definition test_imports ::
  "(int list, int list, int list, int list, string, Ledger, unit Wallet4SendArgsSigned_ext) Imports" where
  "test_imports =
     \<lparr>Buffer_from = (\<lambda>text0 encoding. []),
      Cell_fromBoc = (\<lambda>buf. Inr [[1]]),
      beginCell = [],
      storeUint = (\<lambda>v bits b. if 0 \<le> v \<and> v < 2 ^ bits then Inr (b @ [v]) else Inl ''out of range''),
      storeBuffer = (\<lambda>buf b. Inr (b @ map uint buf)),
      storeBit = (\<lambda>v b. Inr (b @ [v])),
      endCell = (\<lambda>b. Inr b),
      contractAddress = (\<lambda>wc i. Inr (wc # nullish (data i) [])),
      internal = (\<lambda>m. if msg_value m < 0 then Inl ''negative amount'' else Inr (msg_value m # msg_to m)),
      readNumber = (\<lambda>items. case items of TupleItemInt n # rest \<Rightarrow> Inr n | _ \<Rightarrow> Inl ''Not a number''),
      PAY_GAS_SEPARATELY = 1,
      createWalletTransferV4 = (\<lambda>t e.
        if 4 < length (messages t) then (Inl ''too many messages'', e)
        else (Inr (seqno t # transfer_walletId t # nullish (sendMode t) 0 # concat (messages t)), e))\<rparr>"

definition test_provider :: "(int list, string, Ledger) ContractProvider" where
  "test_provider =
     \<lparr>getState = (\<lambda>e.
        if ''getState'' \<in> set (outage e) then (Inl ''getState failed'', e)
        else (Inr \<lparr>balance = account_balance e, state = account_state e\<rparr>, e)),
      get = (\<lambda>name args e.
        if ''get'' \<in> set (outage e) then (Inl ''get failed'', e)
        else (Inr \<lparr>stack = [TupleItemInt (account_seqno e)]\<rparr>, e)),
      external = (\<lambda>message e.
        if ''external'' \<in> set (outage e) then (Inl ''external failed'', e)
        else (Inr (), e\<lparr>inbox := inbox e @ [message]\<rparr>))\<rparr>"

definition test_wallet :: "(int list, int list) WalletContractV4" where
  "test_wallet =
     \<lparr>workchain = 0, publicKey = [1, 2, 3], address = [0, 0, 698983191, 1, 2, 3, 0],
      walletId = 698983191, init = \<lparr>code = Just [1], data = Just [0, 698983191, 1, 2, 3, 0]\<rparr>\<rparr>"

definition test_world :: "string list \<Rightarrow> AccountState \<Rightarrow> (int list, int list, Ledger) World" where
  "test_world down st =
     \<lparr>this = test_wallet,
      chain = \<lparr>outage = down, account_balance = 5000, account_state = st,
               account_seqno = 7, inbox = []\<rparr>,
      calls = []\<rparr>"



section \<open>Stepping through a method\<close>

lemma then_run_return: "then_run m return = m"
proof
  fix w
  obtain r w' where run: "m w = (r, w')" by (cases "m w")
  show "then_run m return w = m w"
    by (cases r) (simp_all add: run then_run_def return_def)
qed

text \<open>What a provider call does to the world: one more call, a new state outside.\<close>

lemma provider_getState_run:
  "getState P (chain w) = (r, c) \<Longrightarrow>
     provider_getState P w = (r, w\<lparr>chain := c, calls := calls w @ [Call_getState]\<rparr>)"
  by (simp add: provider_getState_def)

lemma provider_get_run:
  "get P name args (chain w) = (r, c) \<Longrightarrow>
     provider_get P name args w = (r, w\<lparr>chain := c, calls := calls w @ [Call_get name args]\<rparr>)"
  by (simp add: provider_get_def)

lemma provider_external_run:
  "external P message (chain w) = (r, c) \<Longrightarrow>
     provider_external P message w =
       (r, w\<lparr>chain := c, calls := calls w @ [Call_external message]\<rparr>)"
  by (simp add: provider_external_def)

lemma send_run:
  "external P message (chain w) = (r, c) \<Longrightarrow>
     send P message w = (r, w\<lparr>chain := c, calls := calls w @ [Call_external message]\<rparr>)"
  by (simp add: send_def then_run_return provider_external_run)

lemma createTransfer_run:
  "createWalletTransferV4 L (transfer_args L (this w) args) (chain w) = (r, c) \<Longrightarrow>
     createTransfer L args w = (r, w\<lparr>chain := c\<rparr>)"
  by (simp add: createTransfer_def)

lemma getBalance_run:
  "getState P (chain w) = (r, c) \<Longrightarrow>
     getBalance P w =
       (map_sum id balance r, w\<lparr>chain := c, calls := calls w @ [Call_getState]\<rparr>)"
  by (cases r) (simp_all add: getBalance_def then_run_def return_def provider_getState_run)

subsection \<open>The wallet object across a run\<close>

lemma this_then_run:
  assumes "\<And>w. this (snd (m w)) = this w" and "\<And>v w. this (snd (f v w)) = this w"
  shows "this (snd (then_run m f w)) = this w"
proof -
  obtain r w' where run: "m w = (r, w')" by (cases "m w")
  have w': "this w' = this w" using assms(1) [of w] by (simp add: run)
  show ?thesis
  proof (cases r)
    case (Inl e)
    then show ?thesis by (simp add: then_run_def run w')
  next
    case (Inr v)
    then show ?thesis using assms(2) [of v w'] by (simp add: then_run_def run w')
  qed
qed

lemma this_return: "this (snd (return v w)) = this w"
  by (simp add: return_def)

lemma this_sync: "this (snd (sync r w)) = this w"
  by (simp add: sync_def)

lemma this_provider_getState: "this (snd (provider_getState P w)) = this w"
  by (simp add: provider_getState_def split: prod.split)

lemma this_provider_get: "this (snd (provider_get P name args w)) = this w"
  by (simp add: provider_get_def split: prod.split)

lemma this_provider_external: "this (snd (provider_external P message w)) = this w"
  by (simp add: provider_external_def split: prod.split)

lemma this_getBalance: "this (snd (getBalance P w)) = this w"
  unfolding getBalance_def
  by (intro this_then_run this_provider_getState this_return)

lemma this_getSeqno: "this (snd (getSeqno L P w)) = this w"
  unfolding getSeqno_def
  by (rule this_then_run [OF this_provider_getState])
     (simp add: this_then_run this_provider_get this_sync this_return)

lemma this_send: "this (snd (send P message w)) = this w"
  unfolding send_def
  by (intro this_then_run this_provider_external this_return)

lemma this_createTransfer: "this (snd (createTransfer L args w)) = this w"
  by (simp add: createTransfer_def split: prod.split)

lemma this_sendTransfer: "this (snd (sendTransfer L P args w)) = this w"
  unfolding sendTransfer_def
  by (intro this_then_run this_createTransfer this_send this_return)

lemma this_sender_send: "this (snd (sender_send L P k args w)) = this w"
  unfolding sender_send_def
  by (intro this_then_run this_getSeqno this_sync this_createTransfer this_send this_return)

lemma this_sender_sends: "this (snd (sender_sends L P k args w)) = this w"
  unfolding sender_sends_def
  by (intro this_then_run this_getSeqno this_sync this_createTransfer this_send this_return)

subsection \<open>The provider calls of a run\<close>

lemma calls_then_run:
  assumes "\<And>w. \<exists>cs. calls (snd (m w)) = calls w @ cs \<and> length cs \<le> a"
    and "\<And>v w. \<exists>cs. calls (snd (f v w)) = calls w @ cs \<and> length cs \<le> b"
  shows "\<exists>cs. calls (snd (then_run m f w)) = calls w @ cs \<and> length cs \<le> a + b"
proof -
  obtain r w' where run: "m w = (r, w')" by (cases "m w")
  obtain cs where cs: "calls w' = calls w @ cs" "length cs \<le> a"
    using assms(1) [of w] by (auto simp: run)
  show ?thesis
  proof (cases r)
    case (Inl e)
    then show ?thesis using cs by (simp add: then_run_def run)
  next
    case (Inr v)
    obtain ds where ds: "calls (snd (f v w')) = calls w' @ ds" "length ds \<le> b"
      using assms(2) [of v w'] by auto
    have "calls (snd (f v w')) = calls w @ (cs @ ds)" "length (cs @ ds) \<le> a + b"
      using cs ds by simp_all
    then show ?thesis using Inr by (simp add: then_run_def run)
  qed
qed

lemma calls_return: "\<exists>cs. calls (snd (return v w)) = calls w @ cs \<and> length cs \<le> 0"
  by (simp add: return_def)

lemma calls_sync: "\<exists>cs. calls (snd (sync r w)) = calls w @ cs \<and> length cs \<le> 0"
  by (simp add: sync_def)

lemma calls_createTransfer:
  "\<exists>cs. calls (snd (createTransfer L args w)) = calls w @ cs \<and> length cs \<le> 0"
  by (simp add: createTransfer_def split: prod.split)

lemma calls_provider_getState:
  "\<exists>cs. calls (snd (provider_getState P w)) = calls w @ cs \<and> length cs \<le> 1"
  by (simp add: provider_getState_def split: prod.split)

lemma calls_provider_get:
  "\<exists>cs. calls (snd (provider_get P name args w)) = calls w @ cs \<and> length cs \<le> 1"
  by (simp add: provider_get_def split: prod.split)

lemma calls_provider_external:
  "\<exists>cs. calls (snd (provider_external P message w)) = calls w @ cs \<and> length cs \<le> 1"
  by (simp add: provider_external_def split: prod.split)

lemma calls_getBalance: "calls (snd (getBalance P w)) = calls w @ [Call_getState]"
  by (cases "getState P (chain w)") (simp add: getBalance_run)

lemma calls_send: "calls (snd (send P message w)) = calls w @ [Call_external message]"
  by (cases "external P message (chain w)") (simp add: send_run)

lemma calls_send_bound: "\<exists>cs. calls (snd (send P message w)) = calls w @ cs \<and> length cs \<le> 1"
  by (simp add: calls_send)

lemma calls_seqno_getter:
  "\<exists>cs. calls (snd ((if active0
            then then_run (provider_get P name args) (\<lambda>res. sync (read res))
            else return v) w)) = calls w @ cs \<and> length cs \<le> 1"
proof (cases active0)
  case True
  have "\<exists>cs. calls (snd (then_run (provider_get P name args) (\<lambda>res. sync (read res)) w)) =
          calls w @ cs \<and> length cs \<le> 1 + 0"
    by (intro calls_then_run calls_provider_get calls_sync)
  then show ?thesis using True by simp
next
  case False
  then show ?thesis by (simp add: return_def)
qed

lemma calls_getSeqno: "\<exists>cs. calls (snd (getSeqno L P w)) = calls w @ cs \<and> length cs \<le> 2"
proof -
  have "\<exists>cs. calls (snd (getSeqno L P w)) = calls w @ cs \<and> length cs \<le> 1 + 1"
    unfolding getSeqno_def
    by (rule calls_then_run [OF calls_provider_getState calls_seqno_getter])
  then show ?thesis by (simp only: one_add_one)
qed

lemma calls_sendTransfer:
  "\<exists>cs. calls (snd (sendTransfer L P args w)) = calls w @ cs \<and> length cs \<le> 1"
proof -
  have "\<exists>cs. calls (snd (sendTransfer L P args w)) = calls w @ cs \<and> length cs \<le> 0 + (1 + 0)"
    unfolding sendTransfer_def
    by (intro calls_then_run calls_createTransfer calls_send_bound calls_return)
  then show ?thesis by simp
qed

lemma calls_sender_send:
  "\<exists>cs. calls (snd (sender_send L P k args w)) = calls w @ cs \<and> length cs \<le> 3"
proof -
  have "\<exists>cs. calls (snd (sender_send L P k args w)) = calls w @ cs \<and>
          length cs \<le> 2 + (0 + (0 + (1 + 0)))"
    unfolding sender_send_def
    by (intro calls_then_run calls_getSeqno calls_sync calls_createTransfer calls_send_bound
          calls_return)
  then show ?thesis by simp
qed

lemma calls_sender_sends:
  "\<exists>cs. calls (snd (sender_sends L P k args w)) = calls w @ cs \<and> length cs \<le> 3"
proof -
  have "\<exists>cs. calls (snd (sender_sends L P k args w)) = calls w @ cs \<and>
          length cs \<le> 2 + (0 + (0 + (1 + 0)))"
    unfolding sender_sends_def
    by (intro calls_then_run calls_getSeqno calls_sync calls_createTransfer calls_send_bound
          calls_return)
  then show ?thesis by simp
qed


section \<open>Construction\<close>

lemma and_then_Inr: "and_then r f = Inr v \<longleftrightarrow> (\<exists>u. r = Inr u \<and> f u = Inr v)"
  by (cases r) simp_all

lemma new_WalletContractV4_fields:
  assumes "new_WalletContractV4 L wc pk wid = Inr w"
  shows "workchain w = wc" and "publicKey w = pk"
    and "walletId w = (case wid of Just given \<Rightarrow> given | Null \<Rightarrow> 698983191 + wc
                       | Undefined \<Rightarrow> 698983191 + wc)"
  using assms
  by (auto simp: new_WalletContractV4_def Let_def and_then_Inr)

lemma create_reads_three_fields:
  assumes "args_workchain a1 = args_workchain a2"
    and "args_publicKey a1 = args_publicKey a2"
    and "args_walletId a1 = args_walletId a2"
  shows "create L a1 = create L a2"
  by (simp add: create_def assms)

text \<open>
  C1. Creating a wallet is deterministic in the workchain, the bytes of the public key
  and the wallet id argument: two calls of \<open>create\<close> (which only hands these three to the
  constructor) with the same library, whose argument objects agree on the three fields
  and may differ in anything else they carry, give wallets with the same code cell, the
  same data cell and the same address, whenever both calls return.
\<close>

theorem create_deterministic:
  assumes "args_workchain a1 = args_workchain a2"
    and "args_publicKey a1 = args_publicKey a2"
    and "args_walletId a1 = args_walletId a2"
    and "create L a1 = Inr w1"
    and "create L a2 = Inr w2"
  shows "code (init w1) = code (init w2) \<and> data (init w1) = data (init w2) \<and>
         address w1 = address w2"
proof -
  have "create L a1 = create L a2"
    using assms(1-3) by (rule create_reads_three_fields)
  then have "w1 = w2" using assms(4,5) by simp
  then show ?thesis by simp
qed

theorem create_deterministic_witness:
  "create test_imports \<lparr>args_workchain = 0, args_publicKey = [1, 2, 3], args_walletId = Undefined\<rparr>
     = Inr test_wallet \<and>
   create test_imports (CreateArgs.extend
       \<lparr>args_workchain = 0, args_publicKey = [1, 2, 3], args_walletId = Undefined\<rparr> True)
     = Inr test_wallet \<and>
   code (init test_wallet) = code (init test_wallet) \<and>
   data (init test_wallet) = data (init test_wallet) \<and>
   address test_wallet = address test_wallet"
proof -
  let ?a1 = "\<lparr>args_workchain = 0, args_publicKey = [1, 2, 3], args_walletId = Undefined\<rparr>"
  let ?a2 = "CreateArgs.extend ?a1 True"
  have c1: "create test_imports ?a1 = Inr test_wallet"
    by (simp add: create_def new_WalletContractV4_def test_imports_def test_wallet_def)
  have c2: "create test_imports ?a2 = Inr test_wallet"
    by (simp add: create_def new_WalletContractV4_def test_imports_def test_wallet_def
          CreateArgs.defs)
  have "args_workchain ?a1 = args_workchain ?a2" "args_publicKey ?a1 = args_publicKey ?a2"
    "args_walletId ?a1 = args_walletId ?a2"
    by (simp_all add: CreateArgs.defs)
  from create_deterministic [OF this c1 c2] c1 c2 show ?thesis by simp
qed

text \<open>
  C8. When the wallet id argument is \<^verbatim>\<open>null\<close> or \<^verbatim>\<open>undefined\<close>, the wallet that \<open>create\<close>
  returns has the wallet id \<open>698983191 + workchain\<close>; otherwise it has exactly the
  given wallet id.
\<close>

theorem create_walletId:
  assumes "create L args = Inr w"
  shows "(args_walletId args = Null \<or> args_walletId args = Undefined \<longrightarrow>
            walletId w = 698983191 + args_workchain args) \<and>
         (\<forall>given. args_walletId args = Just given \<longrightarrow> walletId w = given)"
  using new_WalletContractV4_fields(3) [OF assms [unfolded create_def]]
  by auto

theorem create_walletId_witness:
  "create test_imports \<lparr>args_workchain = - 1, args_publicKey = [1, 2, 3], args_walletId = Null\<rparr>
     = Inr \<lparr>workchain = - 1, publicKey = [1, 2, 3], address = [- 1, 0, 698983190, 1, 2, 3, 0],
            walletId = 698983190,
            init = \<lparr>code = Just [1], data = Just [0, 698983190, 1, 2, 3, 0]\<rparr>\<rparr> \<and>
   create test_imports \<lparr>args_workchain = 0, args_publicKey = [1, 2, 3], args_walletId = Undefined\<rparr>
     = Inr test_wallet \<and>
   walletId test_wallet = 698983191 + 0 \<and>
   create test_imports \<lparr>args_workchain = - 1, args_publicKey = [1, 2, 3], args_walletId = Just 5\<rparr>
     = Inr \<lparr>workchain = - 1, publicKey = [1, 2, 3], address = [- 1, 0, 5, 1, 2, 3, 0],
            walletId = 5, init = \<lparr>code = Just [1], data = Just [0, 5, 1, 2, 3, 0]\<rparr>\<rparr>"
proof -
  let ?n = "\<lparr>args_workchain = - 1, args_publicKey = [1, 2, 3], args_walletId = Null\<rparr>"
  let ?u = "\<lparr>args_workchain = 0, args_publicKey = [1, 2, 3], args_walletId = Undefined\<rparr>"
  let ?j = "\<lparr>args_workchain = - 1, args_publicKey = [1, 2, 3], args_walletId = Just 5\<rparr>"
  have n: "create test_imports ?n =
      Inr \<lparr>workchain = - 1, publicKey = [1, 2, 3], address = [- 1, 0, 698983190, 1, 2, 3, 0],
           walletId = 698983190,
           init = \<lparr>code = Just [1], data = Just [0, 698983190, 1, 2, 3, 0]\<rparr>\<rparr>"
    by (simp add: create_def new_WalletContractV4_def test_imports_def)
  have u: "create test_imports ?u = Inr test_wallet"
    by (simp add: create_def new_WalletContractV4_def test_imports_def test_wallet_def)
  have j: "create test_imports ?j =
      Inr \<lparr>workchain = - 1, publicKey = [1, 2, 3], address = [- 1, 0, 5, 1, 2, 3, 0],
           walletId = 5, init = \<lparr>code = Just [1], data = Just [0, 5, 1, 2, 3, 0]\<rparr>\<rparr>"
    by (simp add: create_def new_WalletContractV4_def test_imports_def)
  show ?thesis
    using create_walletId [OF n] create_walletId [OF u] create_walletId [OF j] n u j
    by simp
qed


section \<open>Reading the balance and the seqno\<close>

text \<open>
  C4. \<open>getBalance\<close> returns the balance field of the state that the provider's
  \<open>getState\<close> answered, as it is, and the run makes this one provider call and no
  other: the world afterwards differs only in what \<open>getState\<close> did outside and in the
  call recorded.
\<close>

theorem getBalance_passthrough:
  "(getState P (chain w) = (Inr st, c) \<longrightarrow>
      getBalance P w = (Inr (balance st), w\<lparr>chain := c, calls := calls w @ [Call_getState]\<rparr>))
   \<and> calls (snd (getBalance P w)) = calls w @ [Call_getState]"
  by (simp add: getBalance_run calls_getBalance)

theorem getBalance_passthrough_witness:
  "getState test_provider (chain (test_world [] uninit)) =
     (Inr \<lparr>balance = 5000, state = uninit\<rparr>, chain (test_world [] uninit)) \<and>
   getBalance test_provider (test_world [] uninit) =
     (Inr 5000, (test_world [] uninit)\<lparr>calls := [Call_getState]\<rparr>)"
proof -
  have g: "getState test_provider (chain (test_world [] uninit)) =
     (Inr \<lparr>balance = 5000, state = uninit\<rparr>, chain (test_world [] uninit))"
    by (simp add: test_provider_def test_world_def)
  show ?thesis
    using getBalance_passthrough [of test_provider "test_world [] uninit"
        "\<lparr>balance = 5000, state = uninit\<rparr>" "chain (test_world [] uninit)"] g
    by (simp add: test_world_def)
qed

lemma getSeqno_not_active:
  assumes "getState P (chain w) = (Inr st, c)" and "state_type (state st) \<noteq> ''active''"
  shows "getSeqno L P w = (Inr 0, w\<lparr>chain := c, calls := calls w @ [Call_getState]\<rparr>)"
  using assms(2)
  by (simp add: getSeqno_def then_run_def return_def provider_getState_run [OF assms(1)])

lemma getSeqno_active:
  assumes "getState P (chain w) = (Inr st, c)" and "state_type (state st) = ''active''"
    and "get P ''seqno'' [] c = (r, c')"
  shows "getSeqno L P w =
     (case r of Inl e \<Rightarrow> Inl e | Inr res \<Rightarrow> readNumber L (stack res),
      w\<lparr>chain := c', calls := calls w @ [Call_getState, Call_get ''seqno'' []]\<rparr>)"
proof -
  let ?w1 = "w\<lparr>chain := c, calls := calls w @ [Call_getState]\<rparr>"
  have g: "get P ''seqno'' [] (chain ?w1) = (r, c')" using assms(3) by simp
  show ?thesis
    using assms(2)
    by (cases r)
       (simp_all add: getSeqno_def then_run_def sync_def provider_getState_run [OF assms(1)]
          provider_get_run [OF g])
qed

text \<open>
  C9. When \<open>getState\<close> answers a state whose type is not \<^verbatim>\<open>"active"\<close>, \<open>getSeqno\<close>
  returns 0 and the seqno getter is not called (\<open>getState\<close> is the only call). When the
  type is \<^verbatim>\<open>"active"\<close>, it calls \<^verbatim>\<open>get("seqno", [])\<close> and returns what \<open>readNumber\<close>
  reads from the stack of the answer.
\<close>

theorem getSeqno_cases:
  assumes "getState P (chain w) = (Inr st, c)"
  shows "(state_type (state st) \<noteq> ''active'' \<longrightarrow>
            getSeqno L P w = (Inr 0, w\<lparr>chain := c, calls := calls w @ [Call_getState]\<rparr>)) \<and>
         (state_type (state st) = ''active'' \<longrightarrow>
            (\<forall>res c'. get P ''seqno'' [] c = (Inr res, c') \<longrightarrow>
               getSeqno L P w =
                 (readNumber L (stack res),
                  w\<lparr>chain := c', calls := calls w @ [Call_getState, Call_get ''seqno'' []]\<rparr>)))"
proof (intro conjI impI allI)
  assume "state_type (state st) \<noteq> ''active''"
  then show "getSeqno L P w = (Inr 0, w\<lparr>chain := c, calls := calls w @ [Call_getState]\<rparr>)"
    by (rule getSeqno_not_active [OF assms])
next
  fix res c'
  assume a: "state_type (state st) = ''active''"
    and g: "get P ''seqno'' [] c = (Inr res, c')"
  show "getSeqno L P w =
      (readNumber L (stack res),
       w\<lparr>chain := c', calls := calls w @ [Call_getState, Call_get ''seqno'' []]\<rparr>)"
    using getSeqno_active [OF assms a g] by simp
qed

theorem getSeqno_cases_witness:
  "getSeqno test_imports test_provider (test_world [] uninit) =
     (Inr 0, (test_world [] uninit)\<lparr>calls := [Call_getState]\<rparr>) \<and>
   getSeqno test_imports test_provider (test_world [] (frozen [1])) =
     (Inr 0, (test_world [] (frozen [1]))\<lparr>calls := [Call_getState]\<rparr>) \<and>
   getSeqno test_imports test_provider (test_world [] (active Null Null)) =
     (Inr 7, (test_world [] (active Null Null))\<lparr>calls := [Call_getState, Call_get ''seqno'' []]\<rparr>)"
proof -
  have g: "getState test_provider (chain (test_world [] s)) =
      (Inr \<lparr>balance = 5000, state = s\<rparr>, chain (test_world [] s))" for s
    by (simp add: test_provider_def test_world_def)
  have s: "get test_provider ''seqno'' [] (chain (test_world [] s)) =
      (Inr \<lparr>stack = [TupleItemInt 7]\<rparr>, chain (test_world [] s))" for s
    by (simp add: test_provider_def test_world_def)
  have r: "readNumber test_imports [TupleItemInt 7] = Inr 7"
    by (simp add: test_imports_def)
  show ?thesis
    using getSeqno_cases [OF g, of uninit test_imports]
      getSeqno_cases [OF g, of "frozen [1]" test_imports]
      getSeqno_cases [OF g, of "active Null Null" test_imports] s r
    by (simp add: test_world_def)
qed

section \<open>Building and submitting a transfer\<close>

text \<open>
  C5. \<open>send\<close> hands the given cell, unchanged, to the provider's \<open>external\<close>, returns or
  throws what that call does, and does nothing else: the world afterwards differs only in
  what \<open>external\<close> did outside and in that one call recorded. \<open>sendTransfer\<close> is
  \<open>createTransfer\<close> followed, when it returns a cell, by \<open>send\<close> of that cell.
\<close>

theorem send_passthrough:
  "send P message w =
     (fst (external P message (chain w)),
      w\<lparr>chain := snd (external P message (chain w)),
        calls := calls w @ [Call_external message]\<rparr>)
   \<and> sendTransfer L P args w =
     (case createTransfer L args w of
        (Inl e, w1) \<Rightarrow> (Inl e, w1)
      | (Inr transfer, w1) \<Rightarrow> send P transfer w1)"
proof
  show "send P message w =
     (fst (external P message (chain w)),
      w\<lparr>chain := snd (external P message (chain w)),
        calls := calls w @ [Call_external message]\<rparr>)"
    by (cases "external P message (chain w)") (simp add: send_run)
  show "sendTransfer L P args w =
     (case createTransfer L args w of
        (Inl e, w1) \<Rightarrow> (Inl e, w1)
      | (Inr transfer, w1) \<Rightarrow> send P transfer w1)"
    by (simp add: sendTransfer_def then_run_return then_run_def)
qed

text \<open>
  C10. \<open>createTransfer\<close> returns what the transfer builder does on the forwarded
  arguments. These carry the seqno, the messages, the timeout and every other field of
  \<open>args\<close> as given; their send mode is \<open>PAY_GAS_SEPARATELY\<close> when \<open>args\<close> has \<^verbatim>\<open>null\<close> or
  \<^verbatim>\<open>undefined\<close> there and the send mode of \<open>args\<close> otherwise; their wallet id is the
  wallet's own, whatever \<open>args\<close> holds.
\<close>

theorem createTransfer_forwards:
  "createTransfer L args w =
     (fst (createWalletTransferV4 L (transfer_args L (this w) args) (chain w)),
      w\<lparr>chain := snd (createWalletTransferV4 L (transfer_args L (this w) args) (chain w))\<rparr>)
   \<and> seqno (transfer_args L (this w) args) = seqno args
   \<and> messages (transfer_args L (this w) args) = messages args
   \<and> timeout (transfer_args L (this w) args) = timeout args
   \<and> WalletV4TransferArgs.more (transfer_args L (this w) args) = WalletV4BasicSendArgs.more args
   \<and> transfer_walletId (transfer_args L (this w) args) = walletId (this w)
   \<and> (sendMode args = Null \<or> sendMode args = Undefined \<longrightarrow>
        sendMode (transfer_args L (this w) args) = Just (PAY_GAS_SEPARATELY L))
   \<and> (\<forall>mode. sendMode args = Just mode \<longrightarrow>
        sendMode (transfer_args L (this w) args) = Just mode)"
  by (cases "createWalletTransferV4 L (transfer_args L (this w) args) (chain w)")
     (auto simp: createTransfer_def transfer_args_def)


theorem createTransfer_forwards_witness:
  "sendMode (transfer_args test_imports test_wallet
       \<lparr>seqno = 3, messages = [[100, 4]], sendMode = Undefined, timeout = Null, secretKey = [9]\<rparr>)
     = Just 1 \<and>
   sendMode (transfer_args test_imports test_wallet
       \<lparr>seqno = 3, messages = [[100, 4]], sendMode = Null, timeout = Null, secretKey = [9]\<rparr>)
     = Just 1 \<and>
   sendMode (transfer_args test_imports test_wallet
       \<lparr>seqno = 3, messages = [[100, 4]], sendMode = Just 0, timeout = Null, secretKey = [9]\<rparr>)
     = Just 0 \<and>
   createTransfer test_imports
       \<lparr>seqno = 3, messages = [[100, 4]], sendMode = Just 0, timeout = Null, secretKey = [9]\<rparr>
       (test_world [] uninit)
     = (Inr [3, 698983191, 0, 100, 4], test_world [] uninit)"
proof -
  let ?u = "\<lparr>seqno = 3, messages = [[100, 4]], sendMode = Undefined, timeout = Null, secretKey = [9]\<rparr>"
  let ?n = "\<lparr>seqno = 3, messages = [[100, 4]], sendMode = Null, timeout = Null, secretKey = [9]\<rparr>"
  let ?j = "\<lparr>seqno = 3, messages = [[100, 4]], sendMode = Just 0, timeout = Null, secretKey = [9]\<rparr>"
  let ?w = "test_world [] uninit"
  have p: "PAY_GAS_SEPARATELY test_imports = 1" and t: "this ?w = test_wallet"
    by (simp_all add: test_imports_def test_world_def)
  have b: "createWalletTransferV4 test_imports (transfer_args test_imports test_wallet ?j) (chain ?w)
      = (Inr [3, 698983191, 0, 100, 4], chain ?w)"
    by (simp add: test_imports_def transfer_args_def test_wallet_def)
  show ?thesis
    using createTransfer_forwards [of test_imports ?u ?w]
      createTransfer_forwards [of test_imports ?n ?w]
      createTransfer_forwards [of test_imports ?j ?w] p t b
    by (simp add: test_world_def)
qed

section \<open>The wallet object is never written\<close>

text \<open>
  C7. No exposed operation writes the wallet object: after \<open>getBalance\<close>, \<open>getSeqno\<close>,
  \<open>send\<close>, \<open>sendTransfer\<close>, \<open>createTransfer\<close> and after either function of the object
  that \<open>sender\<close> returns, whether the run returned or threw, the wallet (its workchain,
  public key, wallet id, init cells and address) is the one the run started with.
\<close>

theorem wallet_fields_unchanged:
  "this (snd (getBalance P w)) = this w \<and>
   this (snd (getSeqno Lq P w)) = this w \<and>
   this (snd (send P message w)) = this w \<and>
   this (snd (sendTransfer Lt P targs w)) = this w \<and>
   this (snd (createTransfer Lc cargs w)) = this w \<and>
   this (snd (Sender_send (sender Ls P k) sargs w)) = this w \<and>
   this (snd (Sender_sends (sender Ls P k) margs w)) = this w"
  by (simp add: this_getBalance this_getSeqno this_send this_sendTransfer this_createTransfer
        this_sender_send this_sender_sends sender_def)

section \<open>Round trips to the provider\<close>

text \<open>
  C6, as stated, fails: on an active account \<open>getSeqno\<close> makes two provider calls,
  \<open>getState\<close> and then \<open>get\<close>.
\<close>

theorem getSeqno_two_round_trips:
  "calls (test_world [] (active Null Null)) = [] \<and>
   calls (snd (getSeqno test_imports test_provider (test_world [] (active Null Null)))) =
     [Call_getState, Call_get ''seqno'' []] \<and>
   \<not> length (calls (snd (getSeqno test_imports test_provider (test_world [] (active Null Null)))))
       \<le> length (calls (test_world [] (active Null Null))) + 1"
  by (simp add: getSeqno_def then_run_def sync_def provider_getState_def provider_get_def
        test_provider_def test_imports_def test_world_def)

text \<open>
  C6, amended. \<open>getBalance\<close> and \<open>send\<close> make exactly one provider call,
  \<open>sendTransfer\<close> at most one, \<open>getSeqno\<close> at most two, and the two functions of the
  object that \<open>sender\<close> returns at most three.
\<close>

theorem round_trips_bounded:
  "calls (snd (getBalance P w)) = calls w @ [Call_getState] \<and>
   calls (snd (send P message w)) = calls w @ [Call_external message] \<and>
   (\<exists>cs. calls (snd (sendTransfer Lt P targs w)) = calls w @ cs \<and> length cs \<le> 1) \<and>
   (\<exists>cs. calls (snd (getSeqno Lq P w)) = calls w @ cs \<and> length cs \<le> 2) \<and>
   (\<exists>cs. calls (snd (Sender_send (sender Ls P k) sargs w)) = calls w @ cs \<and> length cs \<le> 3) \<and>
   (\<exists>cs. calls (snd (Sender_sends (sender Ls P k) margs w)) = calls w @ cs \<and> length cs \<le> 3)"
proof -
  have s1: "Sender_send (sender Ls P k) = sender_send Ls P k"
    and s2: "Sender_sends (sender Ls P k) = sender_sends Ls P k"
    by (simp_all add: sender_def)
  show ?thesis
    unfolding s1 s2
    by (intro conjI calls_getBalance calls_send calls_sendTransfer calls_getSeqno
          calls_sender_send calls_sender_sends)
qed


section \<open>Thrown values\<close>

lemma getSeqno_getState_throws:
  "getState P (chain w) = (Inl e, c) \<Longrightarrow>
     getSeqno L P w = (Inl e, w\<lparr>chain := c, calls := calls w @ [Call_getState]\<rparr>)"
  by (simp add: getSeqno_def then_run_def provider_getState_run)

lemma sendTransfer_builder_throws:
  "createWalletTransferV4 L (transfer_args L (this w) args) (chain w) = (Inl e, c) \<Longrightarrow>
     sendTransfer L P args w = (Inl e, w\<lparr>chain := c\<rparr>)"
  by (simp add: sendTransfer_def then_run_def createTransfer_run)

lemma sendTransfer_built:
  "createWalletTransferV4 L (transfer_args L (this w) args) (chain w) = (Inr transfer, c) \<Longrightarrow>
     sendTransfer L P args w = send P transfer (w\<lparr>chain := c\<rparr>)"
  by (simp add: sendTransfer_def then_run_def then_run_return createTransfer_run)

text \<open>
  C3. A value thrown by the provider or by the transfer builder leaves the method as it
  is: when \<open>getState\<close> throws \<open>e\<close>, so do \<open>getBalance\<close> and \<open>getSeqno\<close>; when \<open>get\<close>
  throws \<open>e\<close> on an active account, so does \<open>getSeqno\<close>; when \<open>external\<close> throws \<open>e\<close>, so
  do \<open>send\<close> and \<open>sendTransfer\<close>; when the builder throws \<open>e\<close>, so does
  \<open>sendTransfer\<close>. Whenever one of these four throws, the wallet object is unchanged.
\<close>

theorem errors_propagate:
  "(getState P (chain w) = (Inl e, c) \<longrightarrow>
      fst (getBalance P w) = Inl e \<and> fst (getSeqno Lq P w) = Inl e) \<and>
   (getState P (chain w) = (Inr st, c) \<and> state_type (state st) = ''active'' \<and>
    get P ''seqno'' [] c = (Inl e, c') \<longrightarrow>
      fst (getSeqno Lq P w) = Inl e) \<and>
   (external P message (chain w) = (Inl e, c) \<longrightarrow> fst (send P message w) = Inl e) \<and>
   (createWalletTransferV4 Lt (transfer_args Lt (this w) targs) (chain w) = (Inl e, c) \<longrightarrow>
      fst (sendTransfer Lt P targs w) = Inl e) \<and>
   (createWalletTransferV4 Lt (transfer_args Lt (this w) targs) (chain w) = (Inr transfer, c) \<and>
    external P transfer c = (Inl e, c') \<longrightarrow>
      fst (sendTransfer Lt P targs w) = Inl e) \<and>
   (fst (getBalance P w) = Inl e \<longrightarrow> this (snd (getBalance P w)) = this w) \<and>
   (fst (getSeqno Lq P w) = Inl e \<longrightarrow> this (snd (getSeqno Lq P w)) = this w) \<and>
   (fst (send P message w) = Inl e \<longrightarrow> this (snd (send P message w)) = this w) \<and>
   (fst (sendTransfer Lt P targs w) = Inl e \<longrightarrow> this (snd (sendTransfer Lt P targs w)) = this w)"
proof (intro conjI impI)
  assume "getState P (chain w) = (Inl e, c)"
  then show "fst (getBalance P w) = Inl e" by (simp add: getBalance_run)
next
  assume "getState P (chain w) = (Inl e, c)"
  then show "fst (getSeqno Lq P w) = Inl e" by (simp add: getSeqno_getState_throws)
next
  assume "getState P (chain w) = (Inr st, c) \<and> state_type (state st) = ''active'' \<and>
    get P ''seqno'' [] c = (Inl e, c')"
  then show "fst (getSeqno Lq P w) = Inl e"
    using getSeqno_active [of P w st c "Inl e" c' Lq] by simp
next
  assume "external P message (chain w) = (Inl e, c)"
  then show "fst (send P message w) = Inl e" by (simp add: send_run)
next
  assume "createWalletTransferV4 Lt (transfer_args Lt (this w) targs) (chain w) = (Inl e, c)"
  then show "fst (sendTransfer Lt P targs w) = Inl e"
    by (simp add: sendTransfer_builder_throws)
next
  assume "createWalletTransferV4 Lt (transfer_args Lt (this w) targs) (chain w) = (Inr transfer, c) \<and>
    external P transfer c = (Inl e, c')"
  then show "fst (sendTransfer Lt P targs w) = Inl e"
    by (simp add: sendTransfer_built send_run)
qed (simp_all add: this_getBalance this_getSeqno this_send this_sendTransfer)


theorem errors_propagate_witness:
  "fst (getBalance test_provider (test_world [''getState''] uninit)) = Inl ''getState failed'' \<and>
   fst (getSeqno test_imports test_provider (test_world [''getState''] uninit))
     = Inl ''getState failed'' \<and>
   fst (getSeqno test_imports test_provider (test_world [''get''] (active Null Null)))
     = Inl ''get failed'' \<and>
   fst (send test_provider [1] (test_world [''external''] uninit)) = Inl ''external failed'' \<and>
   fst (sendTransfer test_imports test_provider
          \<lparr>seqno = 3, messages = [[1], [2], [3], [4], [5]], sendMode = Null, timeout = Null,
           secretKey = [9]\<rparr> (test_world [] uninit)) = Inl ''too many messages'' \<and>
   fst (sendTransfer test_imports test_provider
          \<lparr>seqno = 3, messages = [[100, 4]], sendMode = Null, timeout = Null, secretKey = [9]\<rparr>
          (test_world [''external''] uninit)) = Inl ''external failed'' \<and>
   this (snd (getBalance test_provider (test_world [''getState''] uninit))) = test_wallet \<and>
   this (snd (getSeqno test_imports test_provider (test_world [''get''] (active Null Null))))
     = test_wallet \<and>
   this (snd (send test_provider [1] (test_world [''external''] uninit))) = test_wallet \<and>
   this (snd (sendTransfer test_imports test_provider
          \<lparr>seqno = 3, messages = [[100, 4]], sendMode = Null, timeout = Null, secretKey = [9]\<rparr>
          (test_world [''external''] uninit))) = test_wallet"
proof -
  let ?many = "\<lparr>seqno = 3, messages = [[1], [2], [3], [4], [5]], sendMode = Null, timeout = Null,
                 secretKey = [9]\<rparr>"
  let ?one = "\<lparr>seqno = 3, messages = [[100, 4]], sendMode = Null, timeout = Null, secretKey = [9]\<rparr>"
  let ?ws = "test_world [''getState''] uninit"
  let ?wg = "test_world [''get''] (active Null Null)"
  let ?we = "test_world [''external''] uninit"
  let ?w = "test_world [] uninit"
  have s: "getState test_provider (chain ?ws) = (Inl ''getState failed'', chain ?ws)"
    by (simp add: test_provider_def test_world_def)
  have g: "getState test_provider (chain ?wg) =
        (Inr \<lparr>balance = 5000, state = active Null Null\<rparr>, chain ?wg) \<and>
      state_type (state \<lparr>balance = 5000, state = active Null Null\<rparr>) = ''active'' \<and>
      get test_provider ''seqno'' [] (chain ?wg) = (Inl ''get failed'', chain ?wg)"
    by (simp add: test_provider_def test_world_def)
  have x: "external test_provider [1] (chain ?we) = (Inl ''external failed'', chain ?we)"
    by (simp add: test_provider_def test_world_def)
  have b: "createWalletTransferV4 test_imports (transfer_args test_imports (this ?w) ?many) (chain ?w)
      = (Inl ''too many messages'', chain ?w)"
    by (simp add: test_imports_def transfer_args_def)
  have t: "createWalletTransferV4 test_imports (transfer_args test_imports (this ?we) ?one) (chain ?we)
        = (Inr [3, 698983191, 1, 100, 4], chain ?we) \<and>
      external test_provider [3, 698983191, 1, 100, 4] (chain ?we)
        = (Inl ''external failed'', chain ?we)"
    by (simp add: test_imports_def test_provider_def transfer_args_def test_world_def
          test_wallet_def)
  have w: "this ?ws = test_wallet" "this ?wg = test_wallet" "this ?we = test_wallet"
    by (simp_all add: test_world_def)
  note E = errors_propagate [where P = test_provider]
  have 1: "fst (getBalance test_provider ?ws) = Inl ''getState failed'' \<and>
      fst (getSeqno test_imports test_provider ?ws) = Inl ''getState failed''"
    using E [where w = ?ws and e = "''getState failed''" and c = "chain ?ws"
        and Lq = test_imports] s by blast
  have 2: "fst (getSeqno test_imports test_provider ?wg) = Inl ''get failed''"
    using E [where w = ?wg and e = "''get failed''" and c = "chain ?wg" and c' = "chain ?wg"
        and st = "\<lparr>balance = 5000, state = active Null Null\<rparr>" and Lq = test_imports] g
    by blast
  have 3: "fst (send test_provider [1] ?we) = Inl ''external failed''"
    using E [where w = ?we and e = "''external failed''" and c = "chain ?we"
        and message = "[1]"] x by blast
  have 4: "fst (sendTransfer test_imports test_provider ?many ?w) = Inl ''too many messages''"
    using E [where w = ?w and e = "''too many messages''" and c = "chain ?w"
        and Lt = test_imports and targs = ?many] b by blast
  have 5: "fst (sendTransfer test_imports test_provider ?one ?we) = Inl ''external failed''"
    using E [where w = ?we and e = "''external failed''" and c = "chain ?we"
        and c' = "chain ?we" and Lt = test_imports and targs = ?one
        and transfer = "[3, 698983191, 1, 100, 4]"] t by blast
  have 6: "this (snd (getBalance test_provider ?ws)) = this ?ws"
    using E [where w = ?ws and e = "''getState failed''"] 1 by blast
  have 7: "this (snd (getSeqno test_imports test_provider ?wg)) = this ?wg"
    using E [where w = ?wg and e = "''get failed''" and Lq = test_imports] 2 by blast
  have 8: "this (snd (send test_provider [1] ?we)) = this ?we"
    using E [where w = ?we and e = "''external failed''" and message = "[1]"] 3 by blast
  have 9: "this (snd (sendTransfer test_imports test_provider ?one ?we)) = this ?we"
    using E [where w = ?we and e = "''external failed''" and Lt = test_imports
        and targs = ?one] 5 by blast
  show ?thesis
    using 1 2 3 4 5 6 7 8 9 by (simp only: w simp_thms)
qed

section \<open>The seqno of a transfer sent through the sender object\<close>










end
